theory Spec2Isabelle
  imports Complex_Main
begin

section \<open>Data model of the authentication slice\<close>

text \<open>
  The identity record issued by the provider (\<open>User\<close> of the provider's client library);
  only the fields the service reads are kept.
\<close>

record User =
  user_id :: string
  user_email :: string

record Session =
  session_user :: User
  access_token :: string

text \<open>
  \<open>UserProfile\<close> of the service. At run time \<open>role\<close> and \<open>status\<close> are strings
  read from a remote row, and the code compares them as strings, so they are strings here;
  the declared literal types are the predicates \<open>valid_role\<close> and \<open>valid_status\<close>.
\<close>

record UserProfile =
  profile_id :: string
  username :: "string option"
  full_name :: "string option"
  avatar_url :: "string option"
  role :: string
  status :: string
  email_verified :: bool
  last_login_at :: "string option"
  login_attempts :: int
  locked_until :: "string option"
  created_at :: string
  updated_at :: string

definition valid_role :: "string \<Rightarrow> bool" where
  "valid_role r = (r = ''super_admin'' \<or> r = ''admin'' \<or> r = ''editor'' \<or> r = ''user'')"

definition valid_status :: "string \<Rightarrow> bool" where
  "valid_status s = (s = ''active'' \<or> s = ''suspended'' \<or> s = ''pending'' \<or> s = ''banned'')"

text \<open>
  A value of the \<open>jsonb\<close> column \<open>setting_value\<close> as the client delivers it; an object or
  an array is kept by the string it converts to.
\<close>

datatype json = JsonNull | JsonBool bool | JsonNumber real | JsonString string | JsonComposite string

text \<open>A converted setting value: a boolean, a number, or the value as it was stored.\<close>

datatype setting_value = SBool bool | SNumber real | SValue json

record SystemSettings =
  global_signup_enabled :: setting_value
  email_verification_required :: setting_value
  password_min_length :: setting_value
  max_login_attempts :: setting_value
  session_timeout_hours :: setting_value

text \<open>The private fields of the \<open>AuthService\<close> singleton.\<close>

record AuthService =
  currentUser :: "User option"
  currentProfile :: "UserProfile option"
  settings :: "SystemSettings option"
  initialized :: bool

definition AuthService_new :: AuthService where
  "AuthService_new =
     \<lparr>currentUser = None, currentProfile = None, settings = None, initialized = False\<rparr>"

section \<open>The role check\<close>

text \<open>
  \<open>roleHierarchy\<close> is an object literal, and \<open>roleHierarchy[k]\<close> is a property read:
  an own key yields its number, a key inherited from \<open>Object.prototype\<close> yields a function
  or object, any other key yields \<open>undefined\<close>. A function or object is kept by the string
  it converts to, which is all a comparison reads of it.
\<close>

datatype js_value = JNumber nat | JObject string | JUndefined

definition roleHierarchy :: "(string \<times> nat) list" where
  "roleHierarchy = [(''super_admin'', 4), (''admin'', 3), (''editor'', 2), (''user'', 1)]"

definition Object_prototype_keys :: "string list" where
  "Object_prototype_keys =
     [''constructor'', ''hasOwnProperty'', ''isPrototypeOf'', ''propertyIsEnumerable'',
      ''toLocaleString'', ''toString'', ''valueOf'', ''__proto__'',
      ''__defineGetter__'', ''__defineSetter__'', ''__lookupGetter__'', ''__lookupSetter__'']"

text \<open>
  The string of an inherited value: \<open>__proto__\<close> reads \<open>Object.prototype\<close> itself,
  \<open>constructor\<close> the function \<open>Object\<close>, every other key the builtin function of that
  name. The text after a function's name differs between engines in its white space only,
  and is the same for all functions of one engine.
\<close>

definition inherited_string :: "string \<Rightarrow> string" where
  "inherited_string k =
     (if k = ''__proto__'' then ''[object Object]''
      else ''function '' @ (if k = ''constructor'' then ''Object'' else k)
             @ ''() { [native code] }'')"

definition js_get :: "(string \<times> nat) list \<Rightarrow> string \<Rightarrow> js_value" where
  "js_get obj k =
     (case map_of obj k of
        Some n \<Rightarrow> JNumber n
      | None \<Rightarrow>
          if k \<in> set Object_prototype_keys then JObject (inherited_string k) else JUndefined)"

text \<open>\<open>v || 0\<close>: a falsy left operand (\<open>undefined\<close>, \<open>0\<close>) gives \<open>0\<close>, a truthy one itself.\<close>

fun js_or_zero :: "js_value \<Rightarrow> js_value" where
  "js_or_zero (JNumber n) = (if n = 0 then JNumber 0 else JNumber n)"
| "js_or_zero (JObject s) = JObject s"
| "js_or_zero JUndefined = JNumber 0"

text \<open>\<open>s < t\<close> on strings: the order of the code units at the first difference.\<close>

fun js_string_lt :: "string \<Rightarrow> string \<Rightarrow> bool" where
  "js_string_lt [] [] = False"
| "js_string_lt [] (y # ys) = True"
| "js_string_lt (x # xs) [] = False"
| "js_string_lt (x # xs) (y # ys) =
     ((of_char x :: nat) < of_char y \<or> (x = y \<and> js_string_lt xs ys))"

text \<open>
  \<open>a >= b\<close>: each operand is first converted to a primitive, a function or object to its
  string. Two strings are compared as strings, and \<open>a >= b\<close> is the negation of \<open>a < b\<close>.
  Otherwise both are converted to numbers; the string of a function or object converts to
  \<open>NaN\<close>, as does \<open>undefined\<close>, and every comparison with \<open>NaN\<close> is false.
\<close>

fun js_ge :: "js_value \<Rightarrow> js_value \<Rightarrow> bool" where
  "js_ge (JNumber a) (JNumber b) = (a \<ge> b)"
| "js_ge (JObject s) (JObject t) = (\<not> js_string_lt s t)"
| "js_ge _ _ = False"

definition hasRole :: "AuthService \<Rightarrow> string \<Rightarrow> bool" where
  "hasRole this r =
     (case currentProfile this of
        None \<Rightarrow> False
      | Some p \<Rightarrow>
          if status p \<noteq> ''active'' then False
          else
            let userLevel = js_or_zero (js_get roleHierarchy (role p));
                requiredLevel = js_or_zero (js_get roleHierarchy r)
            in js_ge userLevel requiredLevel)"

definition isActive :: "AuthService \<Rightarrow> bool" where
  "isActive this = (case currentProfile this of None \<Rightarrow> False | Some p \<Rightarrow> status p = ''active'')"

section \<open>The remote provider\<close>

text \<open>
  An error value (\<open>Error\<close>, or the provider's error object with its \<open>code\<close>), and the
  outcome of awaiting a call: it resolves to a value or it throws.
\<close>

datatype err = Err (err_message: string) (err_code: "string option")

datatype 'a outcome = Returns 'a | Throws err

text \<open>The requests the service sends, in the order it sends them.\<close>

datatype remote_call =
    AuthGetSession
  | AuthGetUser
  | SelectUserProfile string
  | InsertUserProfile string string string
  | SelectSystemSettings
  | AuthSignInWithPassword string string
  | InsertLoginAttempt string bool "string option"
  | UpdateLastLogin string
  | AuthSignOut
  | AdminCreateUser string string string
  | UpsertUserProfile string string string

text \<open>
  What the provider answers to each request during one operation, and the one builtin of
  the runtime the service relies on: \<open>js_Number v\<close> is \<open>Number(v)\<close> of the string \<open>v\<close>,
  \<open>None\<close> for \<open>NaN\<close>.
  Each field with a \<open>data\<close>/\<open>error\<close> pair holds exactly that pair.
\<close>

record remote =
  getSession :: "(Session option \<times> err option) outcome"
  getUser :: "unit outcome"
  select_user_profile :: "string \<Rightarrow> (UserProfile option \<times> err option) outcome"
  insert_user_profile :: "string \<Rightarrow> (UserProfile option \<times> err option) outcome"
  select_system_settings :: "((string \<times> json) list option \<times> err option) outcome"
  js_Number :: "string \<Rightarrow> real option"
  signInWithPassword :: "string \<Rightarrow> string \<Rightarrow> (User option \<times> Session option \<times> err option) outcome"
  insert_login_attempt :: "unit outcome"
  update_last_login :: "unit outcome"
  auth_signOut :: "err option outcome"
  admin_createUser :: "string \<Rightarrow> string \<Rightarrow> string \<Rightarrow> (User option \<times> err option) outcome"
  upsert_user_profile :: "unit outcome"

section \<open>The service operations\<close>

text \<open>
  Every operation takes the provider's answers and the service, and returns the service
  as it has become together with the requests sent. The private helpers wrap their whole
  body in \<open>try\<close>/\<open>catch\<close> and return nothing. An operation runs from its call to
  the resolution of its promise as one step: the model does not interleave two operations
  at their \<open>await\<close>s.
\<close>

definition createMissingProfile ::
  "remote \<Rightarrow> string \<Rightarrow> AuthService \<Rightarrow> AuthService \<times> remote_call list" where
  "createMissingProfile env userId this =
     (case getUser env of
        Throws e \<Rightarrow> (this, [AuthGetUser])
      | Returns authUser \<Rightarrow>
          (case insert_user_profile env userId of
             Throws e \<Rightarrow> (this, [AuthGetUser, InsertUserProfile userId ''user'' ''active''])
           | Returns (data, error) \<Rightarrow>
               (case error of
                  Some e \<Rightarrow> (this, [AuthGetUser, InsertUserProfile userId ''user'' ''active''])
                | None \<Rightarrow>
                    (this\<lparr>currentProfile := data\<rparr>,
                     [AuthGetUser, InsertUserProfile userId ''user'' ''active'']))))"

definition loadUserProfile ::
  "remote \<Rightarrow> string \<Rightarrow> AuthService \<Rightarrow> AuthService \<times> remote_call list" where
  "loadUserProfile env userId this =
     (case select_user_profile env userId of
        Throws e \<Rightarrow> (this\<lparr>currentProfile := None\<rparr>, [SelectUserProfile userId])
      | Returns (profile, error) \<Rightarrow>
          (case error of
             Some e \<Rightarrow>
               if err_code e = Some ''PGRST116''
               then (let (this', t) = createMissingProfile env userId this
                     in (this', SelectUserProfile userId # t))
               else (this\<lparr>currentProfile := None\<rparr>, [SelectUserProfile userId])
           | None \<Rightarrow> (this\<lparr>currentProfile := profile\<rparr>, [SelectUserProfile userId])))"

definition setDefaultSettings :: "AuthService \<Rightarrow> AuthService" where
  "setDefaultSettings this =
     this\<lparr>settings := Some
       \<lparr>global_signup_enabled = SBool True,
        email_verification_required = SBool False,
        password_min_length = SNumber 8,
        max_login_attempts = SNumber 5,
        session_timeout_hours = SNumber 24\<rparr>\<rparr>"

text \<open>\<open>Number(value)\<close> of a stored value, \<open>None\<close> for \<open>NaN\<close>.\<close>

fun to_Number :: "remote \<Rightarrow> json \<Rightarrow> real option" where
  "to_Number env JsonNull = Some 0"
| "to_Number env (JsonBool b) = Some (if b then 1 else 0)"
| "to_Number env (JsonNumber n) = Some n"
| "to_Number env (JsonString v) = js_Number env v"
| "to_Number env (JsonComposite v) = js_Number env v"

definition convert_setting :: "remote \<Rightarrow> json \<Rightarrow> setting_value" where
  "convert_setting env v =
     (if v = JsonString ''true'' then SBool True
      else if v = JsonString ''false'' then SBool False
      else (case to_Number env v of Some n \<Rightarrow> SNumber n | None \<Rightarrow> SValue v))"

text \<open>\<open>settings[key] ?? d\<close> after the \<open>forEach\<close>: the last row of a key wins.\<close>

definition setting_or :: "remote \<Rightarrow> (string \<times> json) list \<Rightarrow> string \<Rightarrow> setting_value \<Rightarrow> setting_value" where
  "setting_or env rows key d =
     (case map_of (rev rows) key of Some v \<Rightarrow> convert_setting env v | None \<Rightarrow> d)"

definition loadSystemSettings :: "remote \<Rightarrow> AuthService \<Rightarrow> AuthService \<times> remote_call list" where
  "loadSystemSettings env this =
     (case select_system_settings env of
        Throws e \<Rightarrow> (setDefaultSettings this, [SelectSystemSettings])
      | Returns (data, error) \<Rightarrow>
          (case error of
             Some e \<Rightarrow> (setDefaultSettings this, [SelectSystemSettings])
           | None \<Rightarrow>
               (let rows = (case data of None \<Rightarrow> [] | Some rs \<Rightarrow> rs)
                in (this\<lparr>settings := Some
                      \<lparr>global_signup_enabled = setting_or env rows ''global_signup_enabled'' (SBool True),
                       email_verification_required =
                         setting_or env rows ''email_verification_required'' (SBool False),
                       password_min_length = setting_or env rows ''password_min_length'' (SNumber 8),
                       max_login_attempts = setting_or env rows ''max_login_attempts'' (SNumber 5),
                       session_timeout_hours =
                         setting_or env rows ''session_timeout_hours'' (SNumber 24)\<rparr>\<rparr>,
                    [SelectSystemSettings]))))"

text \<open>
  The body of the \<open>try\<close> block of \<open>initialize\<close>: it throws where awaiting the session
  throws, with the service as it is at that point.
\<close>

definition initialize_try ::
  "remote \<Rightarrow> AuthService \<Rightarrow> unit outcome \<times> AuthService \<times> remote_call list" where
  "initialize_try env this =
     (case getSession env of
        Throws e \<Rightarrow> (Throws e, this, [AuthGetSession])
      | Returns (session, error) \<Rightarrow>
          (let (this1, t1) =
                 (case session of
                    Some sess \<Rightarrow>
                      loadUserProfile env (user_id (session_user sess))
                        (this\<lparr>currentUser := Some (session_user sess)\<rparr>)
                  | None \<Rightarrow> (this, []));
               (this2, t2) = loadSystemSettings env this1
           in (Returns (), this2\<lparr>initialized := True\<rparr>, AuthGetSession # t1 @ t2)))"

definition initialize ::
  "remote \<Rightarrow> AuthService \<Rightarrow> unit outcome \<times> AuthService \<times> remote_call list" where
  "initialize env this =
     (if initialized this then (Returns (), this, [])
      else
        (case initialize_try env this of
           (Throws e, this', t) \<Rightarrow> (Returns (), this'\<lparr>initialized := True\<rparr>, t)
         | (Returns u, this', t) \<Rightarrow> (Returns u, this', t)))"

definition logLoginAttempt :: "remote \<Rightarrow> string \<Rightarrow> bool \<Rightarrow> string option \<Rightarrow> remote_call list" where
  "logLoginAttempt env email success errorType =
     (case insert_login_attempt env of
        Throws e \<Rightarrow> [InsertLoginAttempt email success errorType]
      | Returns u \<Rightarrow> [InsertLoginAttempt email success errorType])"

definition updateLastLogin :: "remote \<Rightarrow> string \<Rightarrow> remote_call list" where
  "updateLastLogin env userId =
     (case update_last_login env of
        Throws e \<Rightarrow> [UpdateLastLogin userId]
      | Returns u \<Rightarrow> [UpdateLastLogin userId])"

record signIn_result =
  result_user :: "User option"
  result_session :: "Session option"
  result_error :: "err option"

definition signIn_try ::
  "remote \<Rightarrow> string \<Rightarrow> string \<Rightarrow> bool \<Rightarrow> AuthService
     \<Rightarrow> signIn_result outcome \<times> AuthService \<times> remote_call list" where
  "signIn_try env email password rememberMe this =
     (case signInWithPassword env email password of
        Throws e \<Rightarrow> (Throws e, this, [AuthSignInWithPassword email password])
      | Returns (data_user, data_session, error) \<Rightarrow>
          (case error of
             Some e \<Rightarrow>
               (Returns \<lparr>result_user = None, result_session = None, result_error = Some e\<rparr>,
                this,
                AuthSignInWithPassword email password
                  # logLoginAttempt env email False (Some (err_message e)))
           | None \<Rightarrow>
               (case data_user of
                  Some u \<Rightarrow>
                    (let (this', t) = loadUserProfile env (user_id u) (this\<lparr>currentUser := Some u\<rparr>)
                     in (Returns \<lparr>result_user = data_user, result_session = data_session,
                                  result_error = None\<rparr>,
                         this',
                         AuthSignInWithPassword email password # t
                           @ updateLastLogin env (user_id u)
                           @ logLoginAttempt env email True None))
                | None \<Rightarrow>
                    (Returns \<lparr>result_user = data_user, result_session = data_session,
                              result_error = None\<rparr>,
                     this, [AuthSignInWithPassword email password]))))"

definition signIn ::
  "remote \<Rightarrow> string \<Rightarrow> string \<Rightarrow> bool \<Rightarrow> AuthService
     \<Rightarrow> signIn_result outcome \<times> AuthService \<times> remote_call list" where
  "signIn env email password rememberMe this =
     (case signIn_try env email password rememberMe this of
        (Throws e, this', t) \<Rightarrow>
          (Returns \<lparr>result_user = None, result_session = None, result_error = Some e\<rparr>, this', t)
      | (Returns r, this', t) \<Rightarrow> (Returns r, this', t))"

text \<open>\<open>signOut\<close> resolves to \<open>{ error }\<close>; the value below is that one field.\<close>

definition signOut_try ::
  "remote \<Rightarrow> AuthService \<Rightarrow> err option outcome \<times> AuthService \<times> remote_call list" where
  "signOut_try env this =
     (case auth_signOut env of
        Throws e \<Rightarrow> (Throws e, this, [AuthSignOut])
      | Returns error \<Rightarrow>
          (if error = None
           then (Returns error, this\<lparr>currentUser := None, currentProfile := None\<rparr>, [AuthSignOut])
           else (Returns error, this, [AuthSignOut])))"

definition signOut ::
  "remote \<Rightarrow> AuthService \<Rightarrow> err option outcome \<times> AuthService \<times> remote_call list" where
  "signOut env this =
     (case signOut_try env this of
        (Throws e, this', t) \<Rightarrow> (Returns (Some e), this', t)
      | (Returns r, this', t) \<Rightarrow> (Returns r, this', t))"

record createUser_result =
  created_user :: "User option"
  created_error :: "err option"

definition createUser_try ::
  "remote \<Rightarrow> string \<Rightarrow> string \<Rightarrow> string \<Rightarrow> string \<Rightarrow> AuthService
     \<Rightarrow> createUser_result outcome \<times> AuthService \<times> remote_call list" where
  "createUser_try env email password fullName r this =
     (if \<not> hasRole this ''admin''
      then (Throws (Err ''Permissions insuffisantes'' None), this, [])
      else
        (case admin_createUser env email password fullName of
           Throws e \<Rightarrow> (Throws e, this, [AdminCreateUser email password fullName])
         | Returns (data_user, error) \<Rightarrow>
             (case error of
                Some e \<Rightarrow> (Throws e, this, [AdminCreateUser email password fullName])
              | None \<Rightarrow>
                  (case data_user of
                     None \<Rightarrow>
                       (Returns \<lparr>created_user = data_user, created_error = None\<rparr>, this,
                        [AdminCreateUser email password fullName])
                   | Some u \<Rightarrow>
                       (case upsert_user_profile env of
                          Throws e \<Rightarrow>
                            (Throws e, this,
                             [AdminCreateUser email password fullName,
                              UpsertUserProfile (user_id u) fullName r])
                        | Returns x \<Rightarrow>
                            (Returns \<lparr>created_user = data_user, created_error = None\<rparr>, this,
                             [AdminCreateUser email password fullName,
                              UpsertUserProfile (user_id u) fullName r]))))))"

definition createUser ::
  "remote \<Rightarrow> string \<Rightarrow> string \<Rightarrow> string \<Rightarrow> string \<Rightarrow> AuthService
     \<Rightarrow> createUser_result outcome \<times> AuthService \<times> remote_call list" where
  "createUser env email password fullName r this =
     (case createUser_try env email password fullName r this of
        (Throws e, this', t) \<Rightarrow>
          (Returns \<lparr>created_user = None, created_error = Some e\<rparr>, this', t)
      | (Returns res, this', t) \<Rightarrow> (Returns res, this', t))"

section \<open>The view-binding hook: state and derived flags\<close>

record hook_state =
  authUser :: "User option"
  profile :: "UserProfile option"
  session :: "Session option"
  loading :: bool
  initializing :: bool
  isAdmin :: bool
  isEditor :: bool
  isSuperAdmin :: bool

definition hook_initial :: hook_state where
  "hook_initial =
     \<lparr>authUser = None, profile = None, session = None, loading = True, initializing = True,
      isAdmin = False, isEditor = False, isSuperAdmin = False\<rparr>"

definition updateRoles :: "UserProfile option \<Rightarrow> hook_state \<Rightarrow> hook_state" where
  "updateRoles userProfile h =
     (case userProfile of
        None \<Rightarrow> h\<lparr>isSuperAdmin := False, isAdmin := False, isEditor := False\<rparr>
      | Some p \<Rightarrow>
          if status p \<noteq> ''active''
          then h\<lparr>isSuperAdmin := False, isAdmin := False, isEditor := False\<rparr>
          else
            let newIsSuperAdmin = (role p = ''super_admin'');
                newIsAdmin = (role p \<in> set [''super_admin'', ''admin'']);
                newIsEditor = (role p \<in> set [''super_admin'', ''admin'', ''editor''])
            in h\<lparr>isSuperAdmin := newIsSuperAdmin, isAdmin := newIsAdmin, isEditor := newIsEditor\<rparr>)"

text \<open>\<open>s.includes(sub)\<close> on strings.\<close>

fun starts_with :: "string \<Rightarrow> string \<Rightarrow> bool" where
  "starts_with s [] = True"
| "starts_with [] (c # cs) = False"
| "starts_with (x # xs) (c # cs) = (x = c \<and> starts_with xs cs)"

fun str_includes :: "string \<Rightarrow> string \<Rightarrow> bool" where
  "str_includes [] sub = (sub = [])"
| "str_includes (x # xs) sub = (starts_with (x # xs) sub \<or> str_includes xs sub)"

section \<open>The hook's operations\<close>

text \<open>
  Each operation works on the service singleton and on the state of one mounted hook.
  The state updates of one handler are applied together.
\<close>

definition useAuth_signIn ::
  "remote \<Rightarrow> string \<Rightarrow> string \<Rightarrow> bool \<Rightarrow> AuthService \<times> hook_state
     \<Rightarrow> signIn_result outcome \<times> (AuthService \<times> hook_state) \<times> remote_call list" where
  "useAuth_signIn env email password rememberMe w =
     (case w of (this, h) \<Rightarrow>
        (case signIn env email password rememberMe this of
           (Throws e, this', t) \<Rightarrow>
             (Returns \<lparr>result_user = None, result_session = None, result_error = Some e\<rparr>,
              (this', h), t)
         | (Returns result, this', t) \<Rightarrow>
             (if result_user result \<noteq> None \<and> result_error result = None
              then (let userProfile = currentProfile this'
                    in (Returns result,
                        (this', updateRoles userProfile (h\<lparr>profile := userProfile\<rparr>)), t))
              else (Returns result, (this', h), t))))"

definition useAuth_signOut ::
  "remote \<Rightarrow> AuthService \<times> hook_state
     \<Rightarrow> err option outcome \<times> (AuthService \<times> hook_state) \<times> remote_call list" where
  "useAuth_signOut env w =
     (case w of (this, h) \<Rightarrow>
        (case signOut env this of
           (Throws e, this', t) \<Rightarrow> (Returns (Some e), (this', h), t)
         | (Returns error, this', t) \<Rightarrow>
             (if error = None
              then (Returns error,
                    (this', updateRoles None (h\<lparr>session := None, authUser := None, profile := None\<rparr>)),
                    t)
              else (Returns error, (this', h), t))))"

text \<open>
  The effect run on mount. \<open>hook_session\<close> is the answer to the hook's own session request,
  \<open>mounted1\<close> and \<open>mounted2\<close> are the liveness flag after the first and after the last
  \<open>await\<close>.
\<close>

definition useAuth_settle :: "Session option \<Rightarrow> AuthService \<Rightarrow> hook_state \<Rightarrow> hook_state" where
  "useAuth_settle sess this h =
     (let h1 = h\<lparr>session := sess, authUser := map_option session_user sess\<rparr>;
          h2 = (case sess of
                  Some x \<Rightarrow> updateRoles (currentProfile this) (h1\<lparr>profile := currentProfile this\<rparr>)
                | None \<Rightarrow> updateRoles None (h1\<lparr>profile := None\<rparr>))
      in h2\<lparr>loading := False, initializing := False\<rparr>)"

definition useAuth_initialize ::
  "remote \<Rightarrow> (Session option \<times> err option) outcome \<Rightarrow> bool \<Rightarrow> bool \<Rightarrow> AuthService \<times> hook_state
     \<Rightarrow> (AuthService \<times> hook_state) \<times> remote_call list" where
  "useAuth_initialize env hook_session mounted1 mounted2 w =
     (case w of (this, h) \<Rightarrow>
        (case initialize env this of
           (Throws e, this1, t1) \<Rightarrow>
             ((this1, if mounted1 then h\<lparr>loading := False, initializing := False\<rparr> else h), t1)
         | (Returns u, this1, t1) \<Rightarrow>
             (if \<not> mounted1 then ((this1, h), t1)
              else
                (case hook_session of
                   Throws e \<Rightarrow>
                     ((this1, if mounted2 then h\<lparr>loading := False, initializing := False\<rparr> else h),
                      t1 @ [AuthGetSession])
                 | Returns (sess, error) \<Rightarrow>
                     (let (this2, t2) =
                            (case error of
                               None \<Rightarrow> (this1, [])
                             | Some e \<Rightarrow>
                                 if str_includes (err_message e) ''refresh_token_not_found''
                                    \<or> str_includes (err_message e) ''Refresh Token Not Found''
                                 then (case signOut env this1 of (r, this', t) \<Rightarrow> (this', t))
                                 else (this1, []))
                      in ((this2, if mounted2 then useAuth_settle sess this2 h else h),
                          t1 @ [AuthGetSession] @ t2))))))"

text \<open>
  The callback of the provider's auth-state-change event. With a session it sets the
  session and the identity and then awaits \<open>initialize\<close>: \<open>useAuth_onAuthStateChange_awaiting\<close>
  is the hook state while it waits, \<open>useAuth_onAuthStateChange\<close> the state once it is done.
\<close>

definition useAuth_onAuthStateChange_awaiting ::
  "bool \<Rightarrow> Session option \<Rightarrow> hook_state \<Rightarrow> hook_state" where
  "useAuth_onAuthStateChange_awaiting mounted sess h =
     (if \<not> mounted then h
      else
        (case sess of
           Some x \<Rightarrow> h\<lparr>session := sess, authUser := map_option session_user sess\<rparr>
         | None \<Rightarrow> h))"

definition useAuth_onAuthStateChange ::
  "remote \<Rightarrow> bool \<Rightarrow> Session option \<Rightarrow> AuthService \<times> hook_state
     \<Rightarrow> (AuthService \<times> hook_state) \<times> remote_call list" where
  "useAuth_onAuthStateChange env mounted sess w =
     (case w of (this, h) \<Rightarrow>
        (if \<not> mounted then ((this, h), [])
         else
           (case sess of
              Some x \<Rightarrow>
                (case initialize env this of
                   (r, this', t) \<Rightarrow>
                     ((this',
                       useAuth_settle sess this' (useAuth_onAuthStateChange_awaiting mounted sess h)),
                      t))
            | None \<Rightarrow> ((this, useAuth_settle sess this h), []))))"

text \<open>The states a mounted hook can be in, whatever the service and the provider do.\<close>

inductive hook_reachable :: "hook_state \<Rightarrow> bool" where
  mount: "hook_reachable hook_initial"
| effect:
    "hook_reachable h \<Longrightarrow>
     useAuth_initialize env hook_session mounted1 mounted2 (this, h) = ((this', h'), t) \<Longrightarrow>
     hook_reachable h'"
| event_awaiting:
    "hook_reachable h \<Longrightarrow>
     hook_reachable (useAuth_onAuthStateChange_awaiting mounted sess h)"
| event:
    "hook_reachable h \<Longrightarrow>
     useAuth_onAuthStateChange env mounted sess (this, h) = ((this', h'), t) \<Longrightarrow>
     hook_reachable h'"
| sign_in:
    "hook_reachable h \<Longrightarrow>
     useAuth_signIn env email password rememberMe (this, h) = (res, (this', h'), t) \<Longrightarrow>
     hook_reachable h'"
| sign_out:
    "hook_reachable h \<Longrightarrow>
     useAuth_signOut env (this, h) = (res, (this', h'), t) \<Longrightarrow>
     hook_reachable h'"

section \<open>Route guards\<close>

datatype render = LoadingPlaceholder | Children | Navigate string

text \<open>The guards that read \<open>initializing\<close>.\<close>

definition ProtectedRoute :: "hook_state \<Rightarrow> render" where
  "ProtectedRoute h =
     (if initializing h then LoadingPlaceholder
      else if \<not> isAdmin h \<and> \<not> isEditor h then Navigate ''/admin/login''
      else Children)"

definition AdminOnlyRoute :: "hook_state \<Rightarrow> render" where
  "AdminOnlyRoute h =
     (if initializing h then LoadingPlaceholder
      else if \<not> isAdmin h \<and> \<not> isSuperAdmin h then Navigate ''/admin''
      else Children)"

definition SuperAdminOnlyRoute :: "hook_state \<Rightarrow> render" where
  "SuperAdminOnlyRoute h =
     (if initializing h then LoadingPlaceholder
      else if \<not> isSuperAdmin h then Navigate ''/admin''
      else Children)"

text \<open>The guards of \<open>src/App.tsx\<close>, which read \<open>loading\<close>.\<close>

definition ProtectedRoute_loading :: "hook_state \<Rightarrow> render" where
  "ProtectedRoute_loading h =
     (if loading h then LoadingPlaceholder
      else if \<not> isAdmin h \<and> \<not> isEditor h then Navigate ''/admin/login''
      else Children)"

definition AdminOnlyRoute_loading :: "hook_state \<Rightarrow> render" where
  "AdminOnlyRoute_loading h =
     (if loading h then LoadingPlaceholder
      else if \<not> isAdmin h \<and> \<not> isSuperAdmin h then Navigate ''/admin''
      else Children)"

definition SuperAdminOnlyRoute_loading :: "hook_state \<Rightarrow> render" where
  "SuperAdminOnlyRoute_loading h =
     (if loading h then LoadingPlaceholder
      else if \<not> isSuperAdmin h then Navigate ''/admin''
      else Children)"

section \<open>Derived notions and sample data\<close>

text \<open>
  What the hook maintains between handlers: the two readiness flags agree, and the role
  flags are the ones \<open>updateRoles\<close> computes from the hook's profile.
\<close>

definition hook_inv :: "hook_state \<Rightarrow> bool" where
  "hook_inv h =
     (loading h = initializing h
      \<and> isSuperAdmin h = isSuperAdmin (updateRoles (profile h) h)
      \<and> isAdmin h = isAdmin (updateRoles (profile h) h)
      \<and> isEditor h = isEditor (updateRoles (profile h) h))"

text \<open>Concrete values on which the theorems below are instantiated.\<close>

definition sample_profile :: "string \<Rightarrow> string \<Rightarrow> UserProfile" where
  "sample_profile r s =
     \<lparr>profile_id = ''u1'', username = None, full_name = None, avatar_url = None,
      role = r, status = s, email_verified = True, last_login_at = None, login_attempts = 0,
      locked_until = None, created_at = ''2025-07-11'', updated_at = ''2025-07-11''\<rparr>"

definition sample_user :: User where
  "sample_user = \<lparr>user_id = ''u1'', user_email = ''a@b.c''\<rparr>"

definition sample_session :: Session where
  "sample_session = \<lparr>session_user = sample_user, access_token = ''tok''\<rparr>"

definition sample_service :: "string \<Rightarrow> string \<Rightarrow> AuthService" where
  "sample_service r s =
     \<lparr>currentUser = Some sample_user, currentProfile = Some (sample_profile r s),
      settings = None, initialized = True\<rparr>"

definition default_settings :: SystemSettings where
  "default_settings =
     \<lparr>global_signup_enabled = SBool True,
      email_verification_required = SBool False,
      password_min_length = SNumber 8,
      max_login_attempts = SNumber 5,
      session_timeout_hours = SNumber 24\<rparr>"

definition sample_remote :: remote where
  "sample_remote =
     \<lparr>getSession = Throws (Err ''Failed to fetch'' None),
      getUser = Returns (),
      select_user_profile = (\<lambda>u. Returns (None, Some (Err ''no rows'' (Some ''PGRST116'')))),
      insert_user_profile = (\<lambda>u. Returns (Some (sample_profile ''user'' ''active''), None)),
      select_system_settings =
        Returns (Some [(''password_min_length'', JsonNumber 10),
                       (''global_signup_enabled'', JsonBool True)], None),
      js_Number = (\<lambda>v. if v = ''10'' then Some 10 else None),
      signInWithPassword =
        (\<lambda>e p. Returns (None, None, Some (Err ''Invalid login credentials'' None))),
      insert_login_attempt = Returns (),
      update_last_login = Returns (),
      auth_signOut = Returns None,
      admin_createUser = (\<lambda>e p f. Returns (Some sample_user, None)),
      upsert_user_profile = Returns ()\<rparr>"

text \<open>A provider that has a session but fails the profile and the settings requests.\<close>

definition sample_remote_failing :: remote where
  "sample_remote_failing =
     sample_remote
       \<lparr>getSession := Returns (Some sample_session, None),
        select_user_profile := (\<lambda>u. Throws (Err ''Failed to fetch'' None)),
        select_system_settings := Throws (Err ''Failed to fetch'' None)\<rparr>"

section \<open>Facts about the hierarchy lookup\<close>

lemma level_super_admin: "js_or_zero (js_get roleHierarchy ''super_admin'') = JNumber 4"
  by (simp add: js_get_def roleHierarchy_def)

lemma level_admin: "js_or_zero (js_get roleHierarchy ''admin'') = JNumber 3"
  by (simp add: js_get_def roleHierarchy_def)

lemma level_editor: "js_or_zero (js_get roleHierarchy ''editor'') = JNumber 2"
  by (simp add: js_get_def roleHierarchy_def)

lemma level_user: "js_or_zero (js_get roleHierarchy ''user'') = JNumber 1"
  by (simp add: js_get_def roleHierarchy_def)

lemma map_of_roleHierarchy_None:
  "\<not> valid_role r \<Longrightarrow> map_of roleHierarchy r = None"
  by (simp add: roleHierarchy_def valid_role_def)

lemma map_of_roleHierarchy_Some:
  "map_of roleHierarchy r = Some n \<Longrightarrow> valid_role r \<and> 1 \<le> n \<and> n \<le> 4"
  by (auto simp: roleHierarchy_def valid_role_def split: if_splits)

lemma level_invalid:
  "\<not> valid_role r \<Longrightarrow>
     js_or_zero (js_get roleHierarchy r) =
       (if r \<in> set Object_prototype_keys then JObject (inherited_string r) else JNumber 0)"
  by (simp add: js_get_def map_of_roleHierarchy_None)

lemma js_ge_level_admin:
  "js_ge (js_or_zero (js_get roleHierarchy r)) (JNumber 3) = (r = ''admin'' \<or> r = ''super_admin'')"
proof (cases "valid_role r")
  case True
  then show ?thesis
    by (auto simp: valid_role_def level_super_admin level_admin level_editor level_user)
next
  case False
  then have "r \<noteq> ''admin''" "r \<noteq> ''super_admin''"
    by (auto simp: valid_role_def)
  with False show ?thesis
    by (simp add: level_invalid)
qed

section \<open>Facts about the role check and the derived flags\<close>

lemma hasRole_admin_eq:
  "hasRole this ''admin'' =
     (case currentProfile this of
        None \<Rightarrow> False
      | Some p \<Rightarrow> (role p = ''admin'' \<or> role p = ''super_admin'') \<and> status p = ''active'')"
  by (auto simp: hasRole_def level_admin js_ge_level_admin split: option.splits)

text \<open>With both the cached and the requested role inherited names, the strings are compared.\<close>

lemma hasRole_two_inherited_keys:
  "hasRole (sample_service ''valueOf'' ''active'') ''constructor'' = True"
  "hasRole (sample_service ''constructor'' ''active'') ''valueOf'' = False"
  "hasRole (sample_service ''toString'' ''active'') ''__proto__'' = True"
  by (simp_all add: hasRole_def sample_service_def sample_profile_def js_get_def roleHierarchy_def
        Object_prototype_keys_def inherited_string_def)

lemma updateRoles_keeps:
  "authUser (updateRoles up h) = authUser h"
  "profile (updateRoles up h) = profile h"
  "session (updateRoles up h) = session h"
  "loading (updateRoles up h) = loading h"
  "initializing (updateRoles up h) = initializing h"
  by (simp_all add: updateRoles_def Let_def split: option.splits)

lemma level_of_key:
  "map_of roleHierarchy r = Some n \<Longrightarrow> js_or_zero (js_get roleHierarchy r) = JNumber n"
  by (frule map_of_roleHierarchy_Some) (auto simp: js_get_def)

lemma hasRole_inherited_key:
  assumes "r \<in> set Object_prototype_keys"
    and "currentProfile this = Some p" and "role p \<notin> set Object_prototype_keys"
  shows "hasRole this r = False"
proof -
  from assms(1) have "\<not> valid_role r"
    by (auto simp: Object_prototype_keys_def valid_role_def)
  with assms(1) have r: "js_or_zero (js_get roleHierarchy r) = JObject (inherited_string r)"
    by (simp add: level_invalid)
  have "\<exists>k. js_or_zero (js_get roleHierarchy (role p)) = JNumber k"
    using assms(3) by (cases "map_of roleHierarchy (role p)") (auto simp: js_get_def)
  with r assms(2) show ?thesis
    by (auto simp: hasRole_def)
qed

section \<open>What the hook's handlers preserve\<close>

lemma updateRoles_flags:
  "isSuperAdmin (updateRoles up h) =
     (case up of None \<Rightarrow> False | Some p \<Rightarrow> status p = ''active'' \<and> role p = ''super_admin'')"
  "isAdmin (updateRoles up h) =
     (case up of None \<Rightarrow> False
      | Some p \<Rightarrow> status p = ''active'' \<and> (role p = ''super_admin'' \<or> role p = ''admin''))"
  "isEditor (updateRoles up h) =
     (case up of None \<Rightarrow> False
      | Some p \<Rightarrow> status p = ''active''
          \<and> (role p = ''super_admin'' \<or> role p = ''admin'' \<or> role p = ''editor''))"
  by (simp_all add: updateRoles_def Let_def split: option.splits)

lemma hook_inv_settle: "hook_inv (useAuth_settle sess this h)"
  by (cases sess) (simp_all add: hook_inv_def useAuth_settle_def updateRoles_flags updateRoles_keeps Let_def)

lemma hook_inv_ready: "hook_inv h \<Longrightarrow> hook_inv (h\<lparr>loading := False, initializing := False\<rparr>)"
  by (simp add: hook_inv_def updateRoles_flags)

lemma hook_inv_set_profile: "hook_inv h \<Longrightarrow> hook_inv (updateRoles up (h\<lparr>profile := up\<rparr>))"
  by (simp add: hook_inv_def updateRoles_flags updateRoles_keeps)

lemma useAuth_initialize_hook:
  assumes "useAuth_initialize env hook_session mounted1 mounted2 (this, h) = ((this', h'), t)"
  shows "h' = h \<or> h' = h\<lparr>loading := False, initializing := False\<rparr>
           \<or> (\<exists>sess this2. h' = useAuth_settle sess this2 h)"
proof (cases "initialize env this")
  case (fields r this1 t1)
  show ?thesis
  proof (cases r)
    case (Throws e)
    with fields assms show ?thesis
      by (auto simp: useAuth_initialize_def split: if_splits)
  next
    case (Returns u)
    show ?thesis
    proof (cases mounted1)
      case False
      with fields Returns assms show ?thesis
        by (simp add: useAuth_initialize_def)
    next
      case True
      show ?thesis
      proof (cases hook_session)
        case (Throws e)
        with fields Returns True assms show ?thesis
          by (auto simp: useAuth_initialize_def split: if_splits)
      next
        case R: (Returns se)
        obtain sess error where se: "se = (sess, error)" by (cases se)
        with fields Returns True R assms show ?thesis
          by (cases mounted2) (auto simp: useAuth_initialize_def Let_def split: prod.splits)
      qed
    qed
  qed
qed

lemma useAuth_onAuthStateChange_hook:
  assumes "useAuth_onAuthStateChange env mounted sess (this, h) = ((this', h'), t)"
  shows "h' = h \<or> (\<exists>this2 h2. h' = useAuth_settle sess this2 h2)"
  using assms
  by (cases mounted; cases sess)
     (auto simp: useAuth_onAuthStateChange_def split: prod.splits)

lemma useAuth_signIn_hook:
  assumes "useAuth_signIn env email password rememberMe (this, h) = (res, (this', h'), t)"
  shows "h' = h \<or> (\<exists>up. h' = updateRoles up (h\<lparr>profile := up\<rparr>))"
proof (cases "signIn env email password rememberMe this")
  case (fields r this1 t1)
  with assms show ?thesis
    by (cases r) (auto simp: useAuth_signIn_def Let_def split: if_splits)
qed

lemma useAuth_signOut_hook:
  assumes "useAuth_signOut env (this, h) = (res, (this', h'), t)"
  shows "h' = h \<or> h' = updateRoles None (h\<lparr>session := None, authUser := None, profile := None\<rparr>)"
proof (cases "signOut env this")
  case (fields r this1 t1)
  with assms show ?thesis
    by (cases r) (auto simp: useAuth_signOut_def split: if_splits)
qed

lemma hook_reachable_inv: "hook_reachable h \<Longrightarrow> hook_inv h"
proof (induction rule: hook_reachable.induct)
  case mount
  show ?case by (simp add: hook_inv_def hook_initial_def updateRoles_flags)
next
  case (effect h env hook_session mounted1 mounted2 this this' h' t)
  from useAuth_initialize_hook [OF effect.hyps(2)] effect.IH show ?case
    by (auto simp: hook_inv_settle hook_inv_ready)
next
  case (event_awaiting h mounted sess)
  then show ?case
    by (cases sess)
       (simp_all add: useAuth_onAuthStateChange_awaiting_def hook_inv_def updateRoles_flags)
next
  case (event h env mounted sess this this' h' t)
  from useAuth_onAuthStateChange_hook [OF event.hyps(2)] event.IH show ?case
    by (auto simp: hook_inv_settle)
next
  case (sign_in h env email password rememberMe this res this' h' t)
  from useAuth_signIn_hook [OF sign_in.hyps(2)] sign_in.IH show ?case
    by (auto simp: hook_inv_set_profile)
next
  case (sign_out h env this res this' h' t)
  from useAuth_signOut_hook [OF sign_out.hyps(2)] sign_out.IH show ?case
    by (auto simp: hook_inv_def updateRoles_flags updateRoles_keeps)
qed

section \<open>Facts about the service operations\<close>

lemma signOut_cases:
  "signOut env this =
     (case auth_signOut env of
        Throws e \<Rightarrow> (Returns (Some e), this, [AuthSignOut])
      | Returns None \<Rightarrow> (Returns None, this\<lparr>currentUser := None, currentProfile := None\<rparr>, [AuthSignOut])
      | Returns (Some e) \<Rightarrow> (Returns (Some e), this, [AuthSignOut]))"
  by (simp add: signOut_def signOut_try_def split: outcome.splits option.splits)

lemma signOut_success:
  "signOut env this = (Returns None, this', t) \<Longrightarrow>
     auth_signOut env = Returns None \<and> this' = this\<lparr>currentUser := None, currentProfile := None\<rparr>
       \<and> t = [AuthSignOut]"
  by (auto simp: signOut_cases split: outcome.splits option.splits)

lemma useAuth_signOut_success:
  assumes "useAuth_signOut env (this, h) = (Returns None, (this', h'), t)"
  shows "signOut env this = (Returns None, this', t)
       \<and> h' = updateRoles None (h\<lparr>session := None, authUser := None, profile := None\<rparr>)"
proof (cases "signOut env this")
  case (fields r this1 t1)
  with assms show ?thesis
    by (cases r) (auto simp: useAuth_signOut_def split: if_splits)
qed

lemma logLoginAttempt_calls:
  "logLoginAttempt env email success errorType = [InsertLoginAttempt email success errorType]"
  by (simp add: logLoginAttempt_def split: outcome.splits)

lemma updateLastLogin_calls: "updateLastLogin env userId = [UpdateLastLogin userId]"
  by (simp add: updateLastLogin_def split: outcome.splits)

lemma signIn_returns:
  "\<exists>r this' t. signIn env email password rememberMe this = (Returns r, this', t)"
proof (cases "signIn_try env email password rememberMe this")
  case (fields r this' t)
  then show ?thesis
    by (cases r) (simp_all add: signIn_def)
qed

lemma useAuth_signIn_returns:
  "\<exists>r w t. useAuth_signIn env email password rememberMe (this, h) = (Returns r, w, t)"
proof (cases "signIn env email password rememberMe this")
  case (fields r this' t)
  then show ?thesis
    by (cases r) (simp_all add: useAuth_signIn_def Let_def)
qed

lemma signIn_provider_error:
  "signInWithPassword env email password = Returns (u, s, Some e) \<Longrightarrow>
     signIn env email password rememberMe this =
       (Returns \<lparr>result_user = None, result_session = None, result_error = Some e\<rparr>, this,
        [AuthSignInWithPassword email password,
         InsertLoginAttempt email False (Some (err_message e))])"
  by (simp add: signIn_def signIn_try_def logLoginAttempt_calls)

lemma signIn_provider_throws:
  "signInWithPassword env email password = Throws e \<Longrightarrow>
     signIn env email password rememberMe this =
       (Returns \<lparr>result_user = None, result_session = None, result_error = Some e\<rparr>, this,
        [AuthSignInWithPassword email password])"
  by (simp add: signIn_def signIn_try_def)

lemma initialize_try_throws:
  "initialize_try env this = (Throws e, this', t) \<Longrightarrow>
     getSession env = Throws e \<and> this' = this \<and> t = [AuthGetSession]"
  by (auto simp: initialize_try_def Let_def split: outcome.splits prod.splits)

lemma initialize_try_returns:
  "initialize_try env this = (Returns u, this', t) \<Longrightarrow> initialized this'"
  by (auto simp: initialize_try_def Let_def split: outcome.splits prod.splits)

lemma initialize_completes:
  "\<exists>this1 t1. initialize env this = (Returns (), this1, t1) \<and> initialized this1"
proof (cases "initialized this")
  case True
  then show ?thesis by (simp add: initialize_def)
next
  case False
  show ?thesis
  proof (cases "initialize_try env this")
    case (fields r this' t)
    show ?thesis
    proof (cases r)
      case (Returns u)
      with fields False initialize_try_returns [of env this u this' t] show ?thesis
        by (simp add: initialize_def)
    next
      case (Throws e)
      with fields False show ?thesis
        by (simp add: initialize_def)
    qed
  qed
qed

lemma initialize_noop: "initialized this \<Longrightarrow> initialize env this = (Returns (), this, [])"
  by (simp add: initialize_def)

lemma initialize_failure:
  "\<not> initialized this \<Longrightarrow> getSession env = Throws e \<Longrightarrow>
     initialize env this = (Returns (), this\<lparr>initialized := True\<rparr>, [AuthGetSession])"
  by (simp add: initialize_def initialize_try_def)

lemma signIn_initialized:
  assumes "signIn env email password rememberMe this = (r, this', t)"
  shows "initialized this' = initialized this"
  using assms
  by (auto simp: signIn_def signIn_try_def loadUserProfile_def createMissingProfile_def Let_def
        split: outcome.splits prod.splits option.splits if_splits)

lemma signOut_initialized:
  "signOut env this = (r, this', t) \<Longrightarrow> initialized this' = initialized this"
  by (auto simp: signOut_def signOut_try_def split: outcome.splits option.splits if_splits)

lemma createUser_state: "createUser env email password fullName r this = (res, this', t) \<Longrightarrow> this' = this"
  by (auto simp: createUser_def createUser_try_def split: outcome.splits option.splits if_splits prod.splits)

lemma loadSystemSettings_keeps:
  "currentUser (fst (loadSystemSettings env this)) = currentUser this"
  "currentProfile (fst (loadSystemSettings env this)) = currentProfile this"
  by (simp_all add: loadSystemSettings_def setDefaultSettings_def Let_def
        split: outcome.splits prod.splits option.splits)

lemma loadSystemSettings_failure:
  "select_system_settings env = Throws e \<or> select_system_settings env = Returns (rows, Some e)
     \<Longrightarrow> settings (fst (loadSystemSettings env this)) = Some default_settings"
  by (auto simp: loadSystemSettings_def setDefaultSettings_def default_settings_def)

lemma loadUserProfile_failure:
  "select_user_profile env userId = Throws e
     \<or> (select_user_profile env userId = Returns (d, Some e) \<and> err_code e \<noteq> Some ''PGRST116'')
     \<Longrightarrow> fst (loadUserProfile env userId this) = this\<lparr>currentProfile := None\<rparr>"
  by (auto simp: loadUserProfile_def)

lemma initialize_with_session:
  "\<not> initialized this \<Longrightarrow> getSession env = Returns (Some sess, serr) \<Longrightarrow>
     fst (snd (initialize env this)) =
       (fst (loadSystemSettings env
          (fst (loadUserProfile env (user_id (session_user sess))
             (this\<lparr>currentUser := Some (session_user sess)\<rparr>)))))\<lparr>initialized := True\<rparr>"
  by (simp add: initialize_def initialize_try_def Let_def split: prod.splits)

lemma initialize_without_session:
  "\<not> initialized this \<Longrightarrow> getSession env = Returns (None, serr) \<Longrightarrow>
     fst (snd (initialize env this)) = (fst (loadSystemSettings env this))\<lparr>initialized := True\<rparr>"
  by (simp add: initialize_def initialize_try_def Let_def split: prod.splits)

lemma initialize_profile_failure:
  assumes "\<not> initialized this" and "getSession env = Returns (Some sess, serr)"
    and "select_user_profile env (user_id (session_user sess)) = Throws e
         \<or> (select_user_profile env (user_id (session_user sess)) = Returns (d, Some e)
             \<and> err_code e \<noteq> Some ''PGRST116'')"
  shows "currentUser (fst (snd (initialize env this))) = Some (session_user sess)"
    and "currentProfile (fst (snd (initialize env this))) = None"
  using loadUserProfile_failure [OF assms(3)]
  by (simp_all add: initialize_with_session [OF assms(1,2)] loadSystemSettings_keeps)

lemma initialize_settings_failure:
  assumes "\<not> initialized this" and "getSession env = Returns (osess, serr)"
    and "select_system_settings env = Throws e
         \<or> select_system_settings env = Returns (rows, Some e)"
  shows "settings (fst (snd (initialize env this))) = Some default_settings"
proof (cases osess)
  case None
  with assms(1,2) loadSystemSettings_failure [OF assms(3)] show ?thesis
    by (simp add: initialize_without_session)
next
  case (Some sess)
  with assms(1,2) loadSystemSettings_failure [OF assms(3)] show ?thesis
    by (simp add: initialize_with_session)
qed

lemma sample_initialize_failure:
  "initialize sample_remote AuthService_new
     = (Returns (), AuthService_new\<lparr>initialized := True\<rparr>, [AuthGetSession])"
  by (simp add: initialize_def initialize_try_def sample_remote_def AuthService_new_def)

lemma sample_initialize_success:
  "initialize (sample_remote\<lparr>getSession := Returns (Some sample_session, None)\<rparr>) AuthService_new
     = (Returns (),
        \<lparr>currentUser = Some sample_user, currentProfile = Some (sample_profile ''user'' ''active''),
         settings = Some \<lparr>global_signup_enabled = SNumber 1,
                          email_verification_required = SBool False,
                          password_min_length = SNumber 10,
                          max_login_attempts = SNumber 5,
                          session_timeout_hours = SNumber 24\<rparr>,
         initialized = True\<rparr>,
        [AuthGetSession, SelectUserProfile ''u1'', AuthGetUser,
         InsertUserProfile ''u1'' ''user'' ''active'', SelectSystemSettings])"
  by (simp add: initialize_def initialize_try_def sample_remote_def AuthService_new_def
        loadUserProfile_def createMissingProfile_def loadSystemSettings_def setting_or_def
        convert_setting_def sample_session_def sample_user_def Let_def)

section \<open>Claims about the role check and the derived flags\<close>

text \<open>
  Claim C1. For every cached profile, \<open>hasRole('admin')\<close> is true exactly when the
  profile's role is \<open>admin\<close> or \<open>super_admin\<close> and its status is \<open>active\<close>; with no cached
  profile it is false.
\<close>

theorem hasRole_admin_iff:
  "hasRole (this\<lparr>currentProfile := Some p\<rparr>) ''admin''
     = ((role p = ''admin'' \<or> role p = ''super_admin'') \<and> status p = ''active'')
   \<and> hasRole (this\<lparr>currentProfile := None\<rparr>) ''admin'' = False"
  by (simp add: hasRole_admin_eq)

theorem hasRole_admin_iff_witness:
  "hasRole (sample_service ''super_admin'' ''active'') ''admin'' = True
   \<and> hasRole (sample_service ''editor'' ''active'') ''admin'' = False
   \<and> hasRole (AuthService_new\<lparr>currentProfile := Some (sample_profile ''admin'' ''banned'')\<rparr>) ''admin'' = False
   \<and> hasRole AuthService_new ''admin'' = False"
  using hasRole_admin_iff [where this = "sample_service ''super_admin'' ''active''"
      and p = "sample_profile ''super_admin'' ''active''"]
    hasRole_admin_iff [where this = "sample_service ''editor'' ''active''"
      and p = "sample_profile ''editor'' ''active''"]
    hasRole_admin_iff [where this = AuthService_new and p = "sample_profile ''admin'' ''banned''"]
  by (simp add: sample_service_def sample_profile_def AuthService_new_def)

text \<open>
  Claim C2. For a profile whose status is not \<open>active\<close>, whatever its role, recomputing
  the flags from any earlier hook state gives \<open>isSuperAdmin\<close>, \<open>isAdmin\<close> and \<open>isEditor\<close>
  all false, \<open>hasRole(r)\<close> is false for every requested role \<open>r\<close>, and every state a
  mounted hook reaches with such a profile has the three flags false.
\<close>

theorem inactive_profile_no_flags:
  assumes "status p \<noteq> ''active''"
  shows "isSuperAdmin (updateRoles (Some p) h) = False
       \<and> isAdmin (updateRoles (Some p) h) = False
       \<and> isEditor (updateRoles (Some p) h) = False
       \<and> (\<forall>r. hasRole (this\<lparr>currentProfile := Some p\<rparr>) r = False)
       \<and> (hook_reachable h' \<and> profile h' = Some p
            \<longrightarrow> isSuperAdmin h' = False \<and> isAdmin h' = False \<and> isEditor h' = False)"
proof -
  have flags: "isSuperAdmin (updateRoles (Some p) h) = False"
    "isAdmin (updateRoles (Some p) h) = False" "isEditor (updateRoles (Some p) h) = False"
    using assms by (simp_all add: updateRoles_flags)
  have roles: "\<forall>r. hasRole (this\<lparr>currentProfile := Some p\<rparr>) r = False"
    using assms by (simp add: hasRole_def)
  have inv: "isSuperAdmin h' = False \<and> isAdmin h' = False \<and> isEditor h' = False"
    if "hook_reachable h'" "profile h' = Some p"
    using hook_reachable_inv [OF that(1)] that(2) assms
    by (simp add: hook_inv_def updateRoles_flags)
  from flags roles inv show ?thesis by blast
qed

theorem inactive_profile_no_flags_witness:
  "status (sample_profile ''admin'' ''suspended'') \<noteq> ''active''
   \<and> isSuperAdmin (updateRoles (Some (sample_profile ''admin'' ''suspended'')) (hook_initial\<lparr>isAdmin := True\<rparr>)) = False
   \<and> isAdmin (updateRoles (Some (sample_profile ''admin'' ''suspended'')) (hook_initial\<lparr>isAdmin := True\<rparr>)) = False
   \<and> isEditor (updateRoles (Some (sample_profile ''admin'' ''suspended'')) (hook_initial\<lparr>isAdmin := True\<rparr>)) = False
   \<and> hasRole (sample_service ''admin'' ''suspended'') ''user'' = False"
proof -
  have s: "status (sample_profile ''admin'' ''suspended'') \<noteq> ''active''"
    by (simp add: sample_profile_def)
  have e: "sample_service ''admin'' ''suspended''
             = (sample_service ''admin'' ''suspended'')\<lparr>currentProfile := Some (sample_profile ''admin'' ''suspended'')\<rparr>"
    by (simp add: sample_service_def)
  from inactive_profile_no_flags [OF s, where h = "hook_initial\<lparr>isAdmin := True\<rparr>"
      and this = "sample_service ''admin'' ''suspended''"] s e
  show ?thesis by metis
qed

text \<open>
  Claim C3. \<open>hasRole\<close> is monotone in the hierarchy user < editor < admin < super_admin:
  for every service state and all roles \<open>R\<close>, \<open>R'\<close> of the hierarchy with \<open>R'\<close> ranked at
  or below \<open>R\<close>, if \<open>hasRole(R)\<close> holds then \<open>hasRole(R')\<close> holds.
\<close>

theorem hasRole_monotone:
  assumes "map_of roleHierarchy R = Some n" and "map_of roleHierarchy R' = Some n'"
    and "n' \<le> n" and "hasRole this R"
  shows "hasRole this R'"
proof -
  from assms(4) obtain p where p: "currentProfile this = Some p" "status p = ''active''"
    by (auto simp: hasRole_def split: option.splits if_splits)
  have ge: "js_ge (js_or_zero (js_get roleHierarchy (role p))) (JNumber n)"
    using assms(4) p by (simp add: hasRole_def level_of_key [OF assms(1)])
  then obtain k where k: "js_or_zero (js_get roleHierarchy (role p)) = JNumber k" "n \<le> k"
    by (cases "js_or_zero (js_get roleHierarchy (role p))") auto
  with assms(3) show ?thesis
    using p by (simp add: hasRole_def level_of_key [OF assms(2)])
qed

theorem hasRole_monotone_witness:
  "map_of roleHierarchy ''admin'' = Some 3 \<and> map_of roleHierarchy ''editor'' = Some 2
   \<and> (2::nat) \<le> 3 \<and> hasRole (sample_service ''super_admin'' ''active'') ''admin''
   \<and> hasRole (sample_service ''super_admin'' ''active'') ''editor''"
proof -
  have a: "map_of roleHierarchy ''admin'' = Some 3" by (simp add: roleHierarchy_def)
  have b: "map_of roleHierarchy ''editor'' = Some 2" by (simp add: roleHierarchy_def)
  have c: "(2::nat) \<le> 3" by simp
  have d: "hasRole (sample_service ''super_admin'' ''active'') ''admin''"
    by (simp add: hasRole_admin_eq sample_service_def sample_profile_def)
  from hasRole_monotone [OF a b c d] a b c d show ?thesis by simp
qed

text \<open>
  Claim C4. For a profile with status \<open>active\<close>, \<open>isSuperAdmin\<close> holds exactly for role
  \<open>super_admin\<close>, \<open>isAdmin\<close> exactly for \<open>super_admin\<close> and \<open>admin\<close>, \<open>isEditor\<close> exactly for
  \<open>super_admin\<close>, \<open>admin\<close> and \<open>editor\<close>; the flags depend on the role and the status only,
  not on the other fields of the profile nor on the earlier hook state. The instance below
  is the profile with role \<open>editor\<close>: \<open>isEditor\<close> true, \<open>isAdmin\<close> and \<open>isSuperAdmin\<close> false.
\<close>

theorem derived_flags_of_active_profile:
  assumes "status p = ''active''"
  shows "isSuperAdmin (updateRoles (Some p) h) = (role p = ''super_admin'')
       \<and> isAdmin (updateRoles (Some p) h) = (role p \<in> {''super_admin'', ''admin''})
       \<and> isEditor (updateRoles (Some p) h) = (role p \<in> {''super_admin'', ''admin'', ''editor''})
       \<and> (role q = role p \<and> status q = status p
            \<longrightarrow> isSuperAdmin (updateRoles (Some q) h') = isSuperAdmin (updateRoles (Some p) h)
              \<and> isAdmin (updateRoles (Some q) h') = isAdmin (updateRoles (Some p) h)
              \<and> isEditor (updateRoles (Some q) h') = isEditor (updateRoles (Some p) h))"
  using assms by (auto simp: updateRoles_flags)

theorem derived_flags_of_active_profile_witness:
  "status (sample_profile ''editor'' ''active'') = ''active''
   \<and> isEditor (updateRoles (Some (sample_profile ''editor'' ''active'')) hook_initial) = True
   \<and> isAdmin (updateRoles (Some (sample_profile ''editor'' ''active'')) hook_initial) = False
   \<and> isSuperAdmin (updateRoles (Some (sample_profile ''editor'' ''active'')) hook_initial) = False"
proof -
  have s: "status (sample_profile ''editor'' ''active'') = ''active''"
    by (simp add: sample_profile_def)
  have r: "role (sample_profile ''editor'' ''active'') = ''editor''"
    by (simp add: sample_profile_def)
  from derived_flags_of_active_profile [OF s, where h = hook_initial] s r show ?thesis by simp
qed

section \<open>Claims about the service operations and the hook\<close>

text \<open>
  Claim C5 says that after a successful \<open>signOut()\<close> the cached identity and profile are
  null and the flags false, and that the post-state equals the empty cache state. The
  second part fails: \<open>signOut\<close> writes \<open>currentUser\<close> and \<open>currentProfile\<close> only, so the
  cached settings and the initialisation mark stay, and the service after a successful
  \<open>signOut\<close> is not the empty service.
\<close>

theorem signOut_keeps_settings_counterexample:
  "signOut sample_remote
      \<lparr>currentUser = Some sample_user, currentProfile = Some (sample_profile ''admin'' ''active''),
       settings = Some default_settings, initialized = True\<rparr>
     = (Returns None,
        \<lparr>currentUser = None, currentProfile = None,
         settings = Some default_settings, initialized = True\<rparr>,
        [AuthSignOut])
   \<and> \<lparr>currentUser = None, currentProfile = None,
       settings = Some default_settings, initialized = True\<rparr> \<noteq> AuthService_new"
  by (simp add: signOut_cases sample_remote_def AuthService_new_def)

text \<open>
  Claim C5, as amended. After \<open>signOut()\<close> has returned with a null error, the cached
  identity and profile are null and the three derived role flags are false: the service
  is the one before the call with \<open>currentUser\<close> and \<open>currentProfile\<close> null, its settings
  and its initialisation mark as they were, and the hook state is the one before the call
  with session, identity and profile null and the three flags false, its two readiness
  flags as they were.
\<close>

theorem signOut_success_resets:
  "(signOut env this = (Returns None, this', t) \<longrightarrow>
      currentUser this' = None \<and> currentProfile this' = None
      \<and> this' = this\<lparr>currentUser := None, currentProfile := None\<rparr>)
   \<and> (useAuth_signOut env (this, h) = (Returns None, (this'', h''), t'') \<longrightarrow>
      currentUser this'' = None \<and> currentProfile this'' = None
      \<and> authUser h'' = None \<and> profile h'' = None \<and> session h'' = None
      \<and> isSuperAdmin h'' = False \<and> isAdmin h'' = False \<and> isEditor h'' = False
      \<and> this'' = this\<lparr>currentUser := None, currentProfile := None\<rparr>
      \<and> h'' = h\<lparr>session := None, authUser := None, profile := None,
                 isSuperAdmin := False, isAdmin := False, isEditor := False\<rparr>)"
proof -
  have a: "currentUser this' = None \<and> currentProfile this' = None
      \<and> this' = this\<lparr>currentUser := None, currentProfile := None\<rparr>"
    if "signOut env this = (Returns None, this', t)" for this' t
    using signOut_success [OF that] by simp
  have b: "currentUser this'' = None \<and> currentProfile this'' = None
      \<and> authUser h'' = None \<and> profile h'' = None \<and> session h'' = None
      \<and> isSuperAdmin h'' = False \<and> isAdmin h'' = False \<and> isEditor h'' = False
      \<and> this'' = this\<lparr>currentUser := None, currentProfile := None\<rparr>
      \<and> h'' = h\<lparr>session := None, authUser := None, profile := None,
                 isSuperAdmin := False, isAdmin := False, isEditor := False\<rparr>"
    if h: "useAuth_signOut env (this, h) = (Returns None, (this'', h''), t'')"
  proof -
    from useAuth_signOut_success [OF h]
    have s: "signOut env this = (Returns None, this'', t'')"
      and h'': "h'' = updateRoles None (h\<lparr>session := None, authUser := None, profile := None\<rparr>)"
      by simp_all
    from a [OF s] h'' show ?thesis
      by (simp add: updateRoles_def)
  qed
  from a b show ?thesis by blast
qed

theorem signOut_success_resets_witness:
  "useAuth_signOut sample_remote
      (\<lparr>currentUser = Some sample_user, currentProfile = Some (sample_profile ''admin'' ''active''),
        settings = Some default_settings, initialized = True\<rparr>,
       \<lparr>authUser = Some sample_user, profile = Some (sample_profile ''admin'' ''active''),
        session = Some sample_session, loading = False, initializing = False,
        isAdmin = True, isEditor = True, isSuperAdmin = False\<rparr>)
     = (Returns None,
        (\<lparr>currentUser = None, currentProfile = None,
          settings = Some default_settings, initialized = True\<rparr>,
         \<lparr>authUser = None, profile = None, session = None, loading = False, initializing = False,
          isAdmin = False, isEditor = False, isSuperAdmin = False\<rparr>),
        [AuthSignOut])"
proof -
  have run: "useAuth_signOut sample_remote
      (\<lparr>currentUser = Some sample_user, currentProfile = Some (sample_profile ''admin'' ''active''),
        settings = Some default_settings, initialized = True\<rparr>,
       \<lparr>authUser = Some sample_user, profile = Some (sample_profile ''admin'' ''active''),
        session = Some sample_session, loading = False, initializing = False,
        isAdmin = True, isEditor = True, isSuperAdmin = False\<rparr>)
     = (Returns None,
        (\<lparr>currentUser = None, currentProfile = None,
          settings = Some default_settings, initialized = True\<rparr>,
         \<lparr>authUser = None, profile = None, session = None, loading = False, initializing = False,
          isAdmin = False, isEditor = False, isSuperAdmin = False\<rparr>),
        [AuthSignOut])"
    by (simp add: useAuth_signOut_def signOut_cases sample_remote_def updateRoles_def)
  from signOut_success_resets [THEN conjunct2, rule_format, OF run] run
  show ?thesis by simp
qed

text \<open>
  Claim C6. \<open>signIn\<close> never throws: the service's and the hook's \<open>signIn\<close> return a
  \<open>{user, session, error}\<close> triple on every input. When the provider answers with an error
  (or throws one), the returned error is that error, the returned user is null, and the
  service and the hook, so the cached profile, are exactly what they were before the call.
\<close>

theorem signIn_error_keeps_profile:
  "(\<exists>r this' t. signIn env email password rememberMe this = (Returns r, this', t))
   \<and> (\<exists>r w t. useAuth_signIn env email password rememberMe (this, h) = (Returns r, w, t))
   \<and> (signInWithPassword env email password = Returns (u, s, Some e) \<longrightarrow>
        signIn env email password rememberMe this =
          (Returns \<lparr>result_user = None, result_session = None, result_error = Some e\<rparr>, this,
           [AuthSignInWithPassword email password,
            InsertLoginAttempt email False (Some (err_message e))])
        \<and> useAuth_signIn env email password rememberMe (this, h) =
          (Returns \<lparr>result_user = None, result_session = None, result_error = Some e\<rparr>, (this, h),
           [AuthSignInWithPassword email password,
            InsertLoginAttempt email False (Some (err_message e))]))
   \<and> (signInWithPassword env email password = Throws e \<longrightarrow>
        useAuth_signIn env email password rememberMe (this, h) =
          (Returns \<lparr>result_user = None, result_session = None, result_error = Some e\<rparr>, (this, h),
           [AuthSignInWithPassword email password]))"
  using signIn_returns [of env email password rememberMe this]
    useAuth_signIn_returns [of env email password rememberMe this h]
  by (simp add: useAuth_signIn_def signIn_provider_error signIn_provider_throws)

theorem signIn_error_keeps_profile_witness:
  "signInWithPassword sample_remote ''a@b.c'' ''wrong''
     = Returns (None, None, Some (Err ''Invalid login credentials'' None))
   \<and> useAuth_signIn sample_remote ''a@b.c'' ''wrong'' False
        (sample_service ''editor'' ''active'', hook_initial)
     = (Returns \<lparr>result_user = None, result_session = None,
                 result_error = Some (Err ''Invalid login credentials'' None)\<rparr>,
        (sample_service ''editor'' ''active'', hook_initial),
        [AuthSignInWithPassword ''a@b.c'' ''wrong'',
         InsertLoginAttempt ''a@b.c'' False (Some ''Invalid login credentials'')])"
proof -
  have p: "signInWithPassword sample_remote ''a@b.c'' ''wrong''
     = Returns (None, None, Some (Err ''Invalid login credentials'' None))"
    by (simp add: sample_remote_def)
  from signIn_error_keeps_profile [where env = sample_remote and email = "''a@b.c''"
      and password = "''wrong''" and rememberMe = False and u = None and s = None
      and e = "Err ''Invalid login credentials'' None"
      and this = "sample_service ''editor'' ''active''" and h = hook_initial] p
  show ?thesis by simp
qed

text \<open>
  Claim C7 says, among other things, that a failed initialisation leaves the cache empty.
  That fails where the failure is one of the requests after the session request: the
  helpers absorb it, so with a session whose profile request and settings request both
  fail, the first \<open>initialize\<close> of a fresh service ends with the session's user and the
  default settings cached.
\<close>

theorem initialize_failed_requests_counterexample:
  "initialize sample_remote_failing AuthService_new
     = (Returns (),
        \<lparr>currentUser = Some sample_user, currentProfile = None,
         settings = Some default_settings, initialized = True\<rparr>,
        [AuthGetSession, SelectUserProfile ''u1'', SelectSystemSettings])
   \<and> currentUser \<lparr>currentUser = Some sample_user, currentProfile = None,
         settings = Some default_settings, initialized = True\<rparr> \<noteq> None
   \<and> settings \<lparr>currentUser = Some sample_user, currentProfile = None,
         settings = Some default_settings, initialized = True\<rparr> \<noteq> None"
  by (simp add: initialize_def initialize_try_def sample_remote_failing_def sample_remote_def
        AuthService_new_def loadUserProfile_def loadSystemSettings_def setDefaultSettings_def
        default_settings_def sample_session_def sample_user_def)

text \<open>
  Claim C7, as amended. \<open>initialize()\<close> never throws and always completes with the
  service marked initialised, also when its \<open>catch\<close> branch is taken; every later call,
  whatever the provider would answer, returns at once with the service unchanged and no
  request sent, and the mark survives \<open>signIn\<close>, \<open>signOut\<close> and \<open>createUser\<close>. An
  initialisation whose session request throws changes nothing but the mark, so the cached
  user, profile and settings are what they were, empty on a fresh service. When the session
  request answers, failures of the later requests are absorbed: a profile request that
  throws or answers an error other than \<open>PGRST116\<close> leaves the session's user cached with a
  null profile, and a settings request that throws or answers an error caches the default
  settings.
\<close>

theorem initialize_idempotent:
  "(\<exists>this1 t1. initialize env this = (Returns (), this1, t1) \<and> initialized this1
       \<and> (\<forall>env'. initialize env' this1 = (Returns (), this1, [])))
   \<and> (initialized this \<longrightarrow>
         initialize env this = (Returns (), this, [])
         \<and> initialized (fst (snd (signIn env email password rememberMe this)))
         \<and> initialized (fst (snd (signOut env this)))
         \<and> initialized (fst (snd (createUser env email password fullName r this))))
   \<and> (\<not> initialized this \<and> getSession env = Throws e \<longrightarrow>
         initialize env this = (Returns (), this\<lparr>initialized := True\<rparr>, [AuthGetSession]))
   \<and> (getSession env = Throws e \<longrightarrow>
         (\<exists>this1 t1. initialize env AuthService_new = (Returns (), this1, t1)
            \<and> currentUser this1 = None \<and> currentProfile this1 = None \<and> settings this1 = None))
   \<and> (\<not> initialized this \<and> getSession env = Returns (Some sess, serr)
        \<and> (select_user_profile env (user_id (session_user sess)) = Throws e
            \<or> (select_user_profile env (user_id (session_user sess)) = Returns (d, Some e)
                \<and> err_code e \<noteq> Some ''PGRST116'')) \<longrightarrow>
         currentUser (fst (snd (initialize env this))) = Some (session_user sess)
         \<and> currentProfile (fst (snd (initialize env this))) = None)
   \<and> (\<not> initialized this \<and> getSession env = Returns (osess, serr)
        \<and> (select_system_settings env = Throws e'
            \<or> select_system_settings env = Returns (rows, Some e')) \<longrightarrow>
         settings (fst (snd (initialize env this))) = Some default_settings)"
proof -
  have first: "\<exists>this1 t1. initialize env this = (Returns (), this1, t1) \<and> initialized this1
       \<and> (\<forall>env'. initialize env' this1 = (Returns (), this1, []))"
    using initialize_completes [of env this] by (auto simp: initialize_noop)
  have later: "initialize env this = (Returns (), this, [])
         \<and> initialized (fst (snd (signIn env email password rememberMe this)))
         \<and> initialized (fst (snd (signOut env this)))
         \<and> initialized (fst (snd (createUser env email password fullName r this)))"
    if i: "initialized this"
  proof -
    have a: "initialized (fst (snd (signIn env email password rememberMe this)))"
      using signIn_initialized [of env email password rememberMe this] i
      by (cases "signIn env email password rememberMe this") simp
    have b: "initialized (fst (snd (signOut env this)))"
      using signOut_initialized [of env this] i by (cases "signOut env this") simp
    have c: "initialized (fst (snd (createUser env email password fullName r this)))"
      using createUser_state [of env email password fullName r this] i
      by (cases "createUser env email password fullName r this") simp
    from a b c i show ?thesis by (simp add: initialize_noop)
  qed
  have failing: "initialize env this = (Returns (), this\<lparr>initialized := True\<rparr>, [AuthGetSession])"
    if "\<not> initialized this" "getSession env = Throws e"
    using that by (rule initialize_failure)
  have fresh: "\<exists>this1 t1. initialize env AuthService_new = (Returns (), this1, t1)
            \<and> currentUser this1 = None \<and> currentProfile this1 = None \<and> settings this1 = None"
    if g: "getSession env = Throws e"
  proof -
    have "\<not> initialized AuthService_new" by (simp add: AuthService_new_def)
    from initialize_failure [OF this g] show ?thesis by (simp add: AuthService_new_def)
  qed
  have prof: "currentUser (fst (snd (initialize env this))) = Some (session_user sess)
         \<and> currentProfile (fst (snd (initialize env this))) = None"
    if "\<not> initialized this" "getSession env = Returns (Some sess, serr)"
      "select_user_profile env (user_id (session_user sess)) = Throws e
         \<or> (select_user_profile env (user_id (session_user sess)) = Returns (d, Some e)
             \<and> err_code e \<noteq> Some ''PGRST116'')"
    using initialize_profile_failure [OF that] by simp
  have sett: "settings (fst (snd (initialize env this))) = Some default_settings"
    if "\<not> initialized this" "getSession env = Returns (osess, serr)"
      "select_system_settings env = Throws e'
         \<or> select_system_settings env = Returns (rows, Some e')"
    using that by (rule initialize_settings_failure)
  from first later failing fresh prof sett show ?thesis by blast
qed

theorem initialize_idempotent_witness:
  "getSession sample_remote = Throws (Err ''Failed to fetch'' None)
   \<and> \<not> initialized AuthService_new
   \<and> initialize sample_remote AuthService_new
       = (Returns (), AuthService_new\<lparr>initialized := True\<rparr>, [AuthGetSession])
   \<and> initialize (sample_remote\<lparr>getSession := Returns (Some sample_session, None)\<rparr>)
         (AuthService_new\<lparr>initialized := True\<rparr>)
       = (Returns (), AuthService_new\<lparr>initialized := True\<rparr>, [])
   \<and> currentUser (AuthService_new\<lparr>initialized := True\<rparr>) = None
   \<and> currentProfile (AuthService_new\<lparr>initialized := True\<rparr>) = None
   \<and> settings (AuthService_new\<lparr>initialized := True\<rparr>) = None
   \<and> getSession sample_remote_failing = Returns (Some sample_session, None)
   \<and> select_user_profile sample_remote_failing (user_id (session_user sample_session))
       = Throws (Err ''Failed to fetch'' None)
   \<and> select_system_settings sample_remote_failing = Throws (Err ''Failed to fetch'' None)
   \<and> currentUser (fst (snd (initialize sample_remote_failing AuthService_new))) = Some sample_user
   \<and> currentProfile (fst (snd (initialize sample_remote_failing AuthService_new))) = None
   \<and> settings (fst (snd (initialize sample_remote_failing AuthService_new))) = Some default_settings"
proof -
  have g: "getSession sample_remote = Throws (Err ''Failed to fetch'' None)"
    by (simp add: sample_remote_def)
  have n: "\<not> initialized AuthService_new" by (simp add: AuthService_new_def)
  have i: "initialized (AuthService_new\<lparr>initialized := True\<rparr>)" by simp
  have gf: "getSession sample_remote_failing = Returns (Some sample_session, None)"
    by (simp add: sample_remote_failing_def)
  have pf: "select_user_profile sample_remote_failing (user_id (session_user sample_session))
       = Throws (Err ''Failed to fetch'' None)"
    by (simp add: sample_remote_failing_def)
  have sf: "select_system_settings sample_remote_failing = Throws (Err ''Failed to fetch'' None)"
    by (simp add: sample_remote_failing_def)
  have su: "session_user sample_session = sample_user" by (simp add: sample_session_def)
  note a = initialize_idempotent [where env = sample_remote and this = AuthService_new
      and e = "Err ''Failed to fetch'' None"]
  note b = initialize_idempotent [where this = "AuthService_new\<lparr>initialized := True\<rparr>"
      and env = "sample_remote\<lparr>getSession := Returns (Some sample_session, None)\<rparr>"]
  note c = initialize_idempotent [where env = sample_remote_failing and this = AuthService_new
      and sess = sample_session and serr = None and osess = "Some sample_session"
      and e = "Err ''Failed to fetch'' None" and e' = "Err ''Failed to fetch'' None"]
  from a g n have 1: "initialize sample_remote AuthService_new
       = (Returns (), AuthService_new\<lparr>initialized := True\<rparr>, [AuthGetSession])"
    by blast
  from b i have 2: "initialize (sample_remote\<lparr>getSession := Returns (Some sample_session, None)\<rparr>)
         (AuthService_new\<lparr>initialized := True\<rparr>)
       = (Returns (), AuthService_new\<lparr>initialized := True\<rparr>, [])"
    by blast
  from c n gf pf
  have 3: "currentUser (fst (snd (initialize sample_remote_failing AuthService_new)))
             = Some (session_user sample_session)
           \<and> currentProfile (fst (snd (initialize sample_remote_failing AuthService_new))) = None"
    by blast
  from c n gf sf
  have 4: "settings (fst (snd (initialize sample_remote_failing AuthService_new)))
             = Some default_settings"
    by blast
  from g n 1 2 3 4 gf pf sf su show ?thesis by (simp add: AuthService_new_def)
qed

text \<open>
  Claim C8. Each route guard is a function of \<open>initializing\<close> and the role flags: while
  \<open>initializing\<close> holds it renders the loading placeholder and does not redirect; afterwards
  \<open>ProtectedRoute\<close> renders its children iff \<open>isAdmin \<or> isEditor\<close> and else redirects to
  \<open>/admin/login\<close>, \<open>AdminOnlyRoute\<close> renders them iff \<open>isAdmin \<or> isSuperAdmin\<close> and else
  redirects to \<open>/admin\<close>, \<open>SuperAdminOnlyRoute\<close> renders them iff \<open>isSuperAdmin\<close> and else
  redirects to \<open>/admin\<close>. The guards of \<open>src/App.tsx\<close> read \<open>loading\<close> instead, and agree
  with these in every state a mounted hook reaches.
\<close>

theorem route_guards:
  "(initializing h \<longrightarrow>
      ProtectedRoute h = LoadingPlaceholder \<and> AdminOnlyRoute h = LoadingPlaceholder
      \<and> SuperAdminOnlyRoute h = LoadingPlaceholder)
   \<and> (\<not> initializing h \<longrightarrow>
      ProtectedRoute h = (if isAdmin h \<or> isEditor h then Children else Navigate ''/admin/login'')
      \<and> AdminOnlyRoute h = (if isAdmin h \<or> isSuperAdmin h then Children else Navigate ''/admin'')
      \<and> SuperAdminOnlyRoute h = (if isSuperAdmin h then Children else Navigate ''/admin''))
   \<and> (hook_reachable h \<longrightarrow>
      ProtectedRoute_loading h = ProtectedRoute h
      \<and> AdminOnlyRoute_loading h = AdminOnlyRoute h
      \<and> SuperAdminOnlyRoute_loading h = SuperAdminOnlyRoute h)"
proof -
  have "loading h = initializing h" if "hook_reachable h"
    using hook_reachable_inv [OF that] by (simp add: hook_inv_def)
  then show ?thesis
    by (simp add: ProtectedRoute_def AdminOnlyRoute_def SuperAdminOnlyRoute_def
          ProtectedRoute_loading_def AdminOnlyRoute_loading_def SuperAdminOnlyRoute_loading_def)
qed

theorem route_guards_witness:
  "hook_reachable hook_initial \<and> initializing hook_initial
   \<and> ProtectedRoute hook_initial = LoadingPlaceholder
   \<and> ProtectedRoute_loading hook_initial = LoadingPlaceholder
   \<and> \<not> initializing (useAuth_settle None AuthService_new hook_initial)
   \<and> hook_reachable (useAuth_settle None AuthService_new hook_initial)
   \<and> ProtectedRoute (useAuth_settle None AuthService_new hook_initial) = Navigate ''/admin/login''
   \<and> SuperAdminOnlyRoute_loading (useAuth_settle None AuthService_new hook_initial) = Navigate ''/admin''"
proof -
  have r0: "hook_reachable hook_initial" by (rule hook_reachable.mount)
  have i0: "initializing hook_initial" by (simp add: hook_initial_def)
  have ev: "useAuth_onAuthStateChange sample_remote True None (AuthService_new, hook_initial)
              = ((AuthService_new, useAuth_settle None AuthService_new hook_initial), [])"
    by (simp add: useAuth_onAuthStateChange_def)
  have r1: "hook_reachable (useAuth_settle None AuthService_new hook_initial)"
    by (rule hook_reachable.event [OF r0 ev])
  have i1: "\<not> initializing (useAuth_settle None AuthService_new hook_initial)"
    by (simp add: useAuth_settle_def)
  have f1: "\<not> isAdmin (useAuth_settle None AuthService_new hook_initial)"
    "\<not> isEditor (useAuth_settle None AuthService_new hook_initial)"
    "\<not> isSuperAdmin (useAuth_settle None AuthService_new hook_initial)"
    by (simp_all add: useAuth_settle_def updateRoles_flags)
  from route_guards [of hook_initial] route_guards [of "useAuth_settle None AuthService_new hook_initial"]
    r0 i0 r1 i1 f1
  show ?thesis by simp
qed

text \<open>
  Claim C9. \<open>createUser\<close> fails with the permission error, a null user and no request
  sent whenever \<open>hasRole('admin')\<close> is false for the cached profile, that is, whenever no
  profile is cached, the cached status is not \<open>active\<close>, or the cached role is neither
  \<open>admin\<close> nor \<open>super_admin\<close>.
\<close>

theorem createUser_requires_admin:
  "(\<not> hasRole this ''admin'') =
      (case currentProfile this of
         None \<Rightarrow> True
       | Some p \<Rightarrow> status p \<noteq> ''active'' \<or> (role p \<noteq> ''admin'' \<and> role p \<noteq> ''super_admin''))
   \<and> (\<not> hasRole this ''admin'' \<longrightarrow>
        createUser env email password fullName r this =
          (Returns \<lparr>created_user = None,
                    created_error = Some (Err ''Permissions insuffisantes'' None)\<rparr>,
           this, []))"
  by (auto simp: hasRole_admin_eq createUser_def createUser_try_def split: option.splits)

theorem createUser_requires_admin_witness:
  "\<not> hasRole (sample_service ''editor'' ''active'') ''admin''
   \<and> createUser sample_remote ''n@b.c'' ''pw'' ''New User'' ''admin'' (sample_service ''editor'' ''active'')
       = (Returns \<lparr>created_user = None,
                   created_error = Some (Err ''Permissions insuffisantes'' None)\<rparr>,
          sample_service ''editor'' ''active'', [])
   \<and> \<not> hasRole (sample_service ''super_admin'' ''suspended'') ''admin''"
proof -
  have a: "\<not> hasRole (sample_service ''editor'' ''active'') ''admin''"
    by (simp add: hasRole_admin_eq sample_service_def sample_profile_def)
  have b: "\<not> hasRole (sample_service ''super_admin'' ''suspended'') ''admin''"
    by (simp add: hasRole_admin_eq sample_service_def sample_profile_def)
  from createUser_requires_admin [where this = "sample_service ''editor'' ''active''"
      and env = sample_remote and email = "''n@b.c''" and password = "''pw''"
      and fullName = "''New User''" and r = "''admin''"] a b
  show ?thesis by simp
qed

section \<open>The requested role outside the hierarchy\<close>

text \<open>
  Claim C10 says that \<open>hasRole(r)\<close> is true for every string \<open>r\<close> outside the four role
  names, for every cached profile that is active and has one of the four roles. The
  property read \<open>roleHierarchy['constructor']\<close> finds the function inherited from
  \<open>Object.prototype\<close>, which is truthy, so \<open>|| 0\<close> keeps it, and the comparison of a level
  with it is false: the claim fails at \<open>r = 'constructor'\<close>.
\<close>

theorem hasRole_inherited_key_counterexample:
  "\<not> valid_role ''constructor''
   \<and> valid_role (role (sample_profile ''super_admin'' ''active''))
   \<and> status (sample_profile ''super_admin'' ''active'') = ''active''
   \<and> currentProfile (sample_service ''super_admin'' ''active'') = Some (sample_profile ''super_admin'' ''active'')
   \<and> hasRole (sample_service ''super_admin'' ''active'') ''constructor'' = False"
  by (simp add: valid_role_def sample_profile_def sample_service_def hasRole_def js_get_def
        roleHierarchy_def Object_prototype_keys_def)

text \<open>
  Claim C10, as amended. For every string \<open>r\<close> that is neither one of the four role names
  nor the name of a property inherited from \<open>Object.prototype\<close>, \<open>hasRole(r)\<close> is true for
  every cached profile with status \<open>active\<close> and one of the four roles: the requested level
  defaults to 0 and every role of the hierarchy has a level of at least 1.
\<close>

theorem hasRole_unknown_role:
  assumes "\<not> valid_role r" and "r \<notin> set Object_prototype_keys"
    and "currentProfile this = Some p" and "status p = ''active''" and "valid_role (role p)"
  shows "hasRole this r"
proof -
  from assms(5) obtain k where "map_of roleHierarchy (role p) = Some k"
    by (auto simp: valid_role_def roleHierarchy_def)
  then have "js_or_zero (js_get roleHierarchy (role p)) = JNumber k"
    by (rule level_of_key)
  moreover have "js_or_zero (js_get roleHierarchy r) = JNumber 0"
    using assms(1,2) by (simp add: level_invalid)
  ultimately show ?thesis
    using assms(3,4) by (simp add: hasRole_def)
qed

theorem hasRole_unknown_role_witness:
  "\<not> valid_role ''owner'' \<and> ''owner'' \<notin> set Object_prototype_keys
   \<and> currentProfile (sample_service ''user'' ''active'') = Some (sample_profile ''user'' ''active'')
   \<and> status (sample_profile ''user'' ''active'') = ''active''
   \<and> valid_role (role (sample_profile ''user'' ''active''))
   \<and> hasRole (sample_service ''user'' ''active'') ''owner''"
proof -
  have a: "\<not> valid_role ''owner''" by (simp add: valid_role_def)
  have b: "''owner'' \<notin> set Object_prototype_keys" by (simp add: Object_prototype_keys_def)
  have c: "currentProfile (sample_service ''user'' ''active'') = Some (sample_profile ''user'' ''active'')"
    by (simp add: sample_service_def)
  have d: "status (sample_profile ''user'' ''active'') = ''active''" by (simp add: sample_profile_def)
  have e: "valid_role (role (sample_profile ''user'' ''active''))"
    by (simp add: sample_profile_def valid_role_def)
  from hasRole_unknown_role [OF a b c d e] a b c d e show ?thesis by simp
qed

end
